theory Spec2Isabelle
  imports Main "HOL-Library.Word"
begin

section \<open>The restart tracker of the ECS agent\<close>

text \<open>
  A shallow embedding of \<^verbatim>\<open>ecs-agent/api/container/restart/restart_tracker.go\<close>:
  the types \<^verbatim>\<open>RestartPolicy\<close> and \<^verbatim>\<open>RestartTracker\<close> and the functions
  \<^verbatim>\<open>NewRestartTracker\<close>, \<^verbatim>\<open>GetRestartCount\<close>, \<^verbatim>\<open>RecordRestart\<close> and
  \<^verbatim>\<open>ShouldRestart\<close>.
\<close>

subsection \<open>Machine integers, durations and instants\<close>

text \<open>
  Go's \<^verbatim>\<open>int\<close> is 64 bits wide on the 64-bit platforms the agent is built for;
  \<open>+\<close> wraps around and \<open>sint\<close> reads the two's complement value.
  \<^verbatim>\<open>time.Duration\<close> is an \<^verbatim>\<open>int64\<close> count of nanoseconds.
\<close>

type_synonym go_int = "64 word"
type_synonym Duration = "64 word"

definition minDuration :: Duration where
  "minDuration = word_of_int (- (2 ^ 63))"

definition maxDuration :: Duration where
  "maxDuration = word_of_int (2 ^ 63 - 1)"

text \<open>
  \<^verbatim>\<open>time.Time\<close> and \<^verbatim>\<open>time.Since\<close> belong to Go's standard library. An instant
  is its position on the time line in nanoseconds; the clock that \<^verbatim>\<open>time.Since\<close>
  reads is the explicit argument \<open>now\<close>. As documented for \<^verbatim>\<open>Time.Sub\<close>, the
  difference is the minimum (maximum) duration when it does not fit a \<^verbatim>\<open>Duration\<close>,
  and \<^verbatim>\<open>time.Since(t)\<close> is \<^verbatim>\<open>time.Now().Sub(t)\<close>.
\<close>

type_synonym Time = int

definition Sub :: "Time \<Rightarrow> Time \<Rightarrow> Duration" where
  "Sub t u =
     (let d = t - u
      in if d < - (2 ^ 63) then minDuration
         else if 2 ^ 63 - 1 < d then maxDuration
         else word_of_int d)"

definition Since :: "Time \<Rightarrow> Time \<Rightarrow> Duration" where
  "Since now t = Sub now t"

subsection \<open>Slices in memory\<close>

text \<open>
  A Go slice is a header (pointer to a backing array, length, capacity); copying a
  struct that holds a slice copies the header, not the array. The backing arrays of
  \<^verbatim>\<open>[]int\<close> slices live in a memory of \<^verbatim>\<open>int\<close> cells.
\<close>

type_synonym addr = nat
type_synonym memory = "addr \<Rightarrow> go_int"

record slice =
  slice_array :: addr
  slice_len :: nat
  slice_cap :: nat

text \<open>The elements of a slice, in order: \<^verbatim>\<open>s[0], ..., s[len(s)-1]\<close>.\<close>

definition elements :: "memory \<Rightarrow> slice \<Rightarrow> go_int list" where
  "elements m s = map m [slice_array s ..< slice_array s + slice_len s]"

subsection \<open>Formatting with \<^verbatim>\<open>%d\<close>\<close>

text \<open>
  \<^verbatim>\<open>fmt.Sprintf("%d", x)\<close> on an \<^verbatim>\<open>int\<close>: the decimal digits of the magnitude,
  most significant first, after a minus sign when \<open>x\<close> is negative.
\<close>

definition digit :: "nat \<Rightarrow> char" where
  "digit d = ''0123456789'' ! d"

fun decimal :: "nat \<Rightarrow> string" where
  "decimal n = (if n < 10 then [digit n] else decimal (n div 10) @ [digit (n mod 10)])"

declare decimal.simps [simp del]

definition format_d :: "go_int \<Rightarrow> string" where
  "format_d x = (if sint x < 0 then ''-'' @ decimal (nat (- sint x)) else decimal (nat (sint x)))"

text \<open>
  Reading a decimal numeral back, to state that \<open>format_d\<close> writes the decimal notation
  of the value: the digits are weighted by powers of ten, a leading minus sign negates.
\<close>

definition digit_value :: "char \<Rightarrow> nat" where
  "digit_value ch = of_char ch - 48"

definition read_decimal :: "string \<Rightarrow> nat" where
  "read_decimal ds = foldl (\<lambda>acc ch. 10 * acc + digit_value ch) 0 ds"

definition read_d :: "string \<Rightarrow> int" where
  "read_d s = (case s of
                 [] \<Rightarrow> 0
               | ch # ds \<Rightarrow> if ch = CHR ''-'' then - int (read_decimal ds)
                            else int (read_decimal (ch # ds)))"

subsection \<open>The data model\<close>

text \<open>
  Modelled from the spec: the enumeration \<^verbatim>\<open>apicontainerstatus.ContainerStatus\<close>,
  declared in the package \<^verbatim>\<open>ecs-agent/api/container/status\<close>, which is not among the
  sources. The spec gives it as \<^verbatim>\<open>enum{Running, Stopped, ...}\<close>, of which only the
  stopped state is told apart; the other values are \<open>ContainerStatusOther\<close>.
\<close>

datatype ContainerStatus =
    ContainerRunning
  | ContainerStopped
  | ContainerStatusOther nat

record RestartPolicy =
  Enabled :: bool
  IgnoredExitCodes :: slice
  AttemptResetPeriod :: Duration

record RestartTracker =
  RestartCount :: go_int
  restartPolicy :: RestartPolicy

subsection \<open>The operations\<close>

text \<open>The composite literal leaves \<^verbatim>\<open>RestartCount\<close> at its zero value.\<close>

definition NewRestartTracker :: "RestartPolicy \<Rightarrow> RestartTracker" where
  "NewRestartTracker p = \<lparr>RestartCount = 0, restartPolicy = p\<rparr>"

definition GetRestartCount :: "RestartTracker \<Rightarrow> go_int" where
  "GetRestartCount rt = RestartCount rt"

definition RecordRestart :: "RestartTracker \<Rightarrow> RestartTracker" where
  "RecordRestart rt = rt\<lparr>RestartCount := RestartCount rt + 1\<rparr>"

text \<open>
  The \<^verbatim>\<open>range\<close> loop of \<^verbatim>\<open>ShouldRestart\<close> over the ignored exit codes: \<open>a\<close> is the
  address of the next element, \<open>n\<close> the number of elements left. \<open>Some r\<close> is the
  \<^verbatim>\<open>return\<close> inside the loop, \<open>None\<close> is the loop running to its end.
\<close>

fun ignored_loop :: "memory \<Rightarrow> addr \<Rightarrow> nat \<Rightarrow> go_int \<Rightarrow> (bool \<times> string) option" where
  "ignored_loop m a 0 c = None"
| "ignored_loop m a (Suc n) c =
     (if m a = c
      then Some (False, ''exit code '' @ format_d c @ '' should be ignored'')
      else ignored_loop m (Suc a) n c)"

text \<open>
  \<^verbatim>\<open>ShouldRestart\<close> reads the tracker, the memory behind the slice of ignored exit
  codes and the clock. The exit code is a pointer: \<open>None\<close> is \<^verbatim>\<open>nil\<close>.
\<close>

definition ShouldRestart ::
  "RestartTracker \<Rightarrow> memory \<Rightarrow> Time \<Rightarrow> go_int option \<Rightarrow> Time \<Rightarrow> ContainerStatus
     \<Rightarrow> bool \<times> string" where
  "ShouldRestart rt m now exitCode startedAt desiredStatus =
     (if \<not> Enabled (restartPolicy rt) then (False, ''restart policy is not enabled'')
      else if desiredStatus = ContainerStopped
        then (False, ''container's desired status is stopped'')
      else case exitCode of
        None \<Rightarrow> (False, ''exit code is nil'')
      | Some c \<Rightarrow>
          (case ignored_loop m (slice_array (IgnoredExitCodes (restartPolicy rt)))
                  (slice_len (IgnoredExitCodes (restartPolicy rt))) c of
             Some r \<Rightarrow> r
           | None \<Rightarrow>
               if sint (Since now startedAt) < sint (AttemptResetPeriod (restartPolicy rt))
               then (False, ''attempt reset period has not elapsed'')
               else (True, '''')))"

subsection \<open>Calls on a tracker\<close>

text \<open>
  The three methods have pointer receivers. A call returns its result together with the
  tracker as the method leaves it: \<^verbatim>\<open>ShouldRestart\<close> and \<^verbatim>\<open>GetRestartCount\<close>
  contain no assignment through the receiver, \<^verbatim>\<open>RecordRestart\<close> assigns to
  \<^verbatim>\<open>RestartCount\<close>.
\<close>

datatype call =
    Call_ShouldRestart memory Time "go_int option" Time ContainerStatus
  | Call_GetRestartCount
  | Call_RecordRestart

datatype outcome =
    Returned_Decision "bool \<times> string"
  | Returned_Count go_int
  | Returned_Nothing

fun exec :: "call \<Rightarrow> RestartTracker \<Rightarrow> outcome \<times> RestartTracker" where
  "exec (Call_ShouldRestart m now exitCode startedAt desiredStatus) rt =
     (Returned_Decision (ShouldRestart rt m now exitCode startedAt desiredStatus), rt)"
| "exec Call_GetRestartCount rt = (Returned_Count (GetRestartCount rt), rt)"
| "exec Call_RecordRestart rt = (Returned_Nothing, RecordRestart rt)"

text \<open>The tracker after a sequence of calls, and the number of restarts recorded in it.\<close>

fun run :: "call list \<Rightarrow> RestartTracker \<Rightarrow> RestartTracker" where
  "run [] rt = rt"
| "run (c # cs) rt = run cs (snd (exec c rt))"

fun recorded :: "call list \<Rightarrow> nat" where
  "recorded [] = 0"
| "recorded (Call_RecordRestart # cs) = Suc (recorded cs)"
| "recorded (c # cs) = recorded cs"

subsection \<open>The caller's policy variable\<close>

text \<open>
  \<^verbatim>\<open>NewRestartTracker\<close> receives the policy by value. What the caller can do to its own
  variable \<^verbatim>\<open>p\<close> afterwards: assign to one of its fields, or assign to an element
  \<^verbatim>\<open>p.IgnoredExitCodes[i]\<close>, which writes the backing array and panics (\<open>None\<close>)
  when the index is out of range.
\<close>

datatype mutation =
    Set_Enabled bool
  | Set_IgnoredExitCodes slice
  | Set_AttemptResetPeriod Duration
  | Set_IgnoredExitCode nat go_int

fun mutate :: "mutation \<Rightarrow> RestartPolicy \<Rightarrow> memory \<Rightarrow> (RestartPolicy \<times> memory) option" where
  "mutate (Set_Enabled b) p m = Some (p\<lparr>Enabled := b\<rparr>, m)"
| "mutate (Set_IgnoredExitCodes s) p m = Some (p\<lparr>IgnoredExitCodes := s\<rparr>, m)"
| "mutate (Set_AttemptResetPeriod d) p m = Some (p\<lparr>AttemptResetPeriod := d\<rparr>, m)"
| "mutate (Set_IgnoredExitCode i v) p m =
     (if i < slice_len (IgnoredExitCodes p)
      then Some (p, m(slice_array (IgnoredExitCodes p) + i := v))
      else None)"

text \<open>The memory cell a statement writes, and the cells a slice's elements occupy.\<close>

fun written :: "mutation \<Rightarrow> RestartPolicy \<Rightarrow> addr set" where
  "written (Set_IgnoredExitCode i v) p = {slice_array (IgnoredExitCodes p) + i}"
| "written \<mu> p = {}"

definition cells :: "slice \<Rightarrow> addr set" where
  "cells s = {slice_array s ..< slice_array s + slice_len s}"

subsection \<open>The policies of the unit test\<close>

text \<open>
  \<^verbatim>\<open>TestShouldRestart\<close> uses the policy
  \<^verbatim>\<open>RestartPolicy{Enabled: e, IgnoredExitCodes: []int{0}, AttemptResetPeriod: time.Minute}\<close>.
  The backing array of \<^verbatim>\<open>[]int{0}\<close> is the cell at address 0 of \<open>test_memory\<close>;
  a minute is \<open>60000000000\<close> nanoseconds.
\<close>

definition test_memory :: memory where
  "test_memory = (\<lambda>_. 0)"

definition test_policy :: "bool \<Rightarrow> RestartPolicy" where
  "test_policy e =
     \<lparr>Enabled = e,
      IgnoredExitCodes = \<lparr>slice_array = 0, slice_len = 1, slice_cap = 1\<rparr>,
      AttemptResetPeriod = 60000000000\<rparr>"

section \<open>Auxiliary facts\<close>

subsection \<open>The loop over the ignored exit codes\<close>

lemma ignored_loop_eq:
  "ignored_loop m a n c =
     (if c \<in> m ` {a ..< a + n}
      then Some (False, ''exit code '' @ format_d c @ '' should be ignored'')
      else None)"
proof (induction n arbitrary: a)
  case 0
  then show ?case by simp
next
  case (Suc n)
  have split: "{a ..< a + Suc n} = insert a {Suc a ..< Suc a + n}"
    by auto
  show ?case
    by (simp only: ignored_loop.simps Suc.IH split) auto
qed

lemma set_elements:
  "set (elements m s) = m ` {slice_array s ..< slice_array s + slice_len s}"
  by (simp add: elements_def)

lemma ignored_loop_elements:
  "ignored_loop m (slice_array s) (slice_len s) c =
     (if c \<in> set (elements m s)
      then Some (False, ''exit code '' @ format_d c @ '' should be ignored'')
      else None)"
  by (simp only: ignored_loop_eq set_elements)

subsection \<open>Decimal notation\<close>

lemma digit_value_digit: "d < 10 \<Longrightarrow> digit_value (digit d) = d"
proof -
  assume "d < 10"
  then have "d \<in> {0, 1, 2, 3, 4, 5, 6, 7, 8, 9}" by auto
  then show ?thesis
    by (auto simp: digit_def digit_value_def)
qed

lemma read_decimal_snoc:
  "read_decimal (ds @ [ch]) = 10 * read_decimal ds + digit_value ch"
  by (simp add: read_decimal_def)

lemma read_decimal_decimal: "read_decimal (decimal n) = n"
proof (induction n rule: decimal.induct)
  case (1 n)
  show ?case
  proof (cases "n < 10")
    case True
    then show ?thesis
      by (simp add: decimal.simps [of n] read_decimal_def digit_value_digit)
  next
    case False
    with 1 have "read_decimal (decimal (n div 10)) = n div 10" by simp
    with False show ?thesis
      by (simp add: decimal.simps [of n] read_decimal_snoc digit_value_digit)
  qed
qed

lemma digit_not_minus: "d < 10 \<Longrightarrow> digit d \<noteq> CHR ''-''"
proof -
  assume "d < 10"
  then have "d \<in> {0, 1, 2, 3, 4, 5, 6, 7, 8, 9}" by auto
  then show ?thesis
    by (auto simp: digit_def)
qed

lemma decimal_hd: "\<exists>d ds. d < 10 \<and> decimal n = digit d # ds"
proof (induction n rule: decimal.induct)
  case (1 n)
  show ?case
  proof (cases "n < 10")
    case True
    then show ?thesis
      by (auto simp: decimal.simps [of n])
  next
    case False
    with 1 obtain d ds where "d < 10" and "decimal (n div 10) = digit d # ds" by blast
    with False show ?thesis
      by (auto simp: decimal.simps [of n])
  qed
qed

lemma read_d_format_d: "read_d (format_d x) = sint x"
proof (cases "sint x < 0")
  case True
  then show ?thesis
    by (simp add: format_d_def read_d_def read_decimal_decimal)
next
  case False
  obtain d ds where d: "d < 10" and eq: "decimal (nat (sint x)) = digit d # ds"
    using decimal_hd by blast
  have "read_decimal (digit d # ds) = nat (sint x)"
    using read_decimal_decimal [of "nat (sint x)"] by (simp only: eq)
  with False d show ?thesis
    by (simp add: format_d_def read_d_def eq digit_not_minus)
qed

subsection \<open>Durations\<close>

lemma sint_word_of_int_exact:
  assumes "- (2 ^ 63) \<le> d" and "d \<le> 2 ^ 63 - 1"
  shows "sint (word_of_int d :: 64 word) = d"
proof -
  from assms have "- (2 ^ 63) \<le> d" and "d < 2 ^ 63" by simp_all
  then show ?thesis
    by (simp add: sint_sbintrunc' signed_take_bit_int_eq_self_iff)
qed

lemma sint_minDuration: "sint minDuration = - (2 ^ 63)"
  by (simp add: minDuration_def)

lemma sint_maxDuration: "sint maxDuration = 2 ^ 63 - 1"
  by (simp add: maxDuration_def)

lemma sint_Sub:
  "sint (Sub t u) = max (- (2 ^ 63)) (min (2 ^ 63 - 1) (t - u))"
proof -
  define d where "d = t - u"
  have "sint (Sub t u) =
          (if d < - (2 ^ 63) then - (2 ^ 63) else if 2 ^ 63 - 1 < d then 2 ^ 63 - 1 else d)"
    unfolding Sub_def Let_def d_def [symmetric]
    by (simp add: sint_minDuration sint_maxDuration sint_word_of_int_exact del: of_int_diff)
  then show ?thesis unfolding d_def by auto
qed

lemma sint_Since_exact:
  assumes "- (2 ^ 63) \<le> now - t" and "now - t \<le> 2 ^ 63 - 1"
  shows "sint (Since now t) = now - t"
  using assms by (simp add: Since_def sint_Sub)

lemma sint_above_minDuration:
  assumes "p \<noteq> minDuration"
  shows "- (2 ^ 63) < sint (p :: Duration)"
proof -
  have "sint p \<noteq> sint minDuration"
    using assms by (simp add: word_eq_iff_signed [where ?'a = int])
  moreover have "- (2 ^ 63) \<le> sint p"
    using sint_ge [of p] by simp
  ultimately show ?thesis
    by (simp add: sint_minDuration)
qed

lemma Since_less_iff:
  assumes "p \<noteq> minDuration"
  shows "sint (Since now t) < sint (p :: Duration) \<longleftrightarrow> now - t < sint p"
proof -
  have lo: "- (2 ^ 63) < sint p"
    using assms by (rule sint_above_minDuration)
  have hi: "sint p \<le> 2 ^ 63 - 1"
    using sint_lt [of p] by simp
  from lo hi show ?thesis
    unfolding Since_def sint_Sub by auto
qed

lemma Since_ge:
  assumes "sint (p :: Duration) \<le> now - t"
  shows "sint p \<le> sint (Since now t)"
proof -
  have hi: "sint p \<le> 2 ^ 63 - 1"
    using sint_lt [of p] by simp
  from assms hi show ?thesis
    unfolding Since_def sint_Sub by auto
qed

lemma Since_not_less_minDuration: "\<not> sint (Since now t) < sint minDuration"
  using sint_ge [of "Since now t"] by (simp add: sint_minDuration)

lemma minute_not_minDuration: "(60000000000 :: Duration) \<noteq> minDuration"
  by (simp add: minDuration_def)

subsection \<open>The counter\<close>

lemma RecordRestart_funpow_count:
  "RestartCount ((RecordRestart ^^ n) rt) = RestartCount rt + of_nat n"
  by (induction n) (simp_all add: RecordRestart_def)

lemma RecordRestart_funpow_policy:
  "restartPolicy ((RecordRestart ^^ n) rt) = restartPolicy rt"
  by (induction n) (simp_all add: RecordRestart_def)

lemma sint_of_nat_small:
  "n < 2 ^ 63 \<Longrightarrow> sint (of_nat n :: 64 word) = int n"
  using sint_word_of_int_exact [of "int n"] by simp

lemma sint_succ:
  assumes "sint (w :: 64 word) < 2 ^ 63 - 1"
  shows "sint (w + 1) = sint w + 1"
proof -
  have lo: "- (2 ^ 63) \<le> sint w"
    using sint_ge [of w] by simp
  have "sint (w + 1) = signed_take_bit 63 (sint w + 1)"
    by (simp add: sint_word_ariths)
  also have "\<dots> = sint w + 1"
    using lo assms by (simp add: signed_take_bit_int_eq_self_iff)
  finally show ?thesis .
qed

lemma exec_frame:
  "c \<noteq> Call_RecordRestart \<Longrightarrow> snd (exec c rt) = rt"
  by (cases c) simp_all

lemma exec_policy: "restartPolicy (snd (exec c rt)) = restartPolicy rt"
  by (cases c) (simp_all add: RecordRestart_def)

lemma exec_count:
  "RestartCount (snd (exec c rt)) =
     (if c = Call_RecordRestart then RestartCount rt + 1 else RestartCount rt)"
  by (cases c) (simp_all add: RecordRestart_def)

lemma run_policy: "restartPolicy (run cs rt) = restartPolicy rt"
  by (induction cs arbitrary: rt) (simp_all add: exec_policy)

lemma run_count: "RestartCount (run cs rt) = RestartCount rt + of_nat (recorded cs)"
  by (induction cs arbitrary: rt rule: recorded.induct) (simp_all add: RecordRestart_def)

lemma recorded_append: "recorded (cs @ ds) = recorded cs + recorded ds"
  by (induction cs rule: recorded.induct) simp_all

subsection \<open>Memory outside a slice\<close>

lemma elements_cong:
  assumes "\<forall>a \<in> cells s. m' a = m a"
  shows "elements m' s = elements m s"
  using assms by (simp add: elements_def cells_def)

lemma ShouldRestart_mem_cong:
  assumes "\<forall>a \<in> cells (IgnoredExitCodes (restartPolicy rt)). m' a = m a"
  shows "ShouldRestart rt m' now exitCode startedAt desiredStatus
           = ShouldRestart rt m now exitCode startedAt desiredStatus"
  by (simp only: ShouldRestart_def ignored_loop_elements elements_cong [OF assms])

lemma mutate_frame:
  assumes "mutate \<mu> q m = Some (q', m')" and "a \<notin> written \<mu> q"
  shows "m' a = m a"
  using assms by (cases \<mu>) (auto split: if_splits)

subsection \<open>Values used in the examples\<close>

lemma format_d_0: "format_d 0 = ''0''"
  by (simp add: format_d_def decimal.simps digit_def)

lemma sint_Since_minute: "sint (Since 60000000000 0) = 60000000000"
  by (simp add: sint_Since_exact)

lemma sint_Since_short: "sint (Since 59999999999 0) = 59999999999"
  by (simp add: sint_Since_exact)

lemma format_d_1: "format_d 1 = ''1''"
  by (simp add: format_d_def decimal.simps digit_def)

lemma format_d_137: "format_d 137 = ''137''"
  by (simp add: format_d_def decimal.simps digit_def)

section \<open>The decision\<close>

text \<open>
  C2: whenever the tracker's policy has \<^verbatim>\<open>Enabled = false\<close>, \<^verbatim>\<open>ShouldRestart\<close>
  returns \<^verbatim>\<open>(false, "restart policy is not enabled")\<close>, for every exit code (nil or
  not), start time, desired status, clock reading and memory, and whatever the other
  fields of the policy are.
\<close>

theorem ShouldRestart_disabled:
  assumes "\<not> Enabled (restartPolicy rt)"
  shows "ShouldRestart rt m now exitCode startedAt desiredStatus
           = (False, ''restart policy is not enabled'')"
  using assms by (simp add: ShouldRestart_def)

theorem ShouldRestart_disabled_witness:
  "\<not> Enabled (restartPolicy (NewRestartTracker (test_policy False)))
   \<and> ShouldRestart (NewRestartTracker (test_policy False)) test_memory 0 (Some 1)
        120000000000 ContainerRunning
      = (False, ''restart policy is not enabled'')"
proof -
  have h: "\<not> Enabled (restartPolicy (NewRestartTracker (test_policy False)))"
    by (simp add: NewRestartTracker_def test_policy_def)
  from h ShouldRestart_disabled [OF h] show ?thesis by simp
qed

text \<open>
  C3: for an enabled policy and the desired status \<^verbatim>\<open>ContainerStopped\<close>,
  \<^verbatim>\<open>ShouldRestart\<close> returns \<^verbatim>\<open>(false, "container's desired status is stopped")\<close>
  for every exit code (nil, ignored or not) and every start time: the check comes before
  those of the exit code and of the reset period, so its reason is the one returned when
  several checks would block.
\<close>

theorem ShouldRestart_stopped:
  assumes "Enabled (restartPolicy rt)"
  shows "ShouldRestart rt m now exitCode startedAt ContainerStopped
           = (False, ''container's desired status is stopped'')"
  using assms by (simp add: ShouldRestart_def)

theorem ShouldRestart_stopped_witness:
  "Enabled (restartPolicy (NewRestartTracker (test_policy True)))
   \<and> ShouldRestart (NewRestartTracker (test_policy True)) test_memory 0 (Some 0)
        120000000000 ContainerStopped
      = (False, ''container's desired status is stopped'')
   \<and> ShouldRestart (NewRestartTracker (test_policy True)) test_memory 0 None
        120000000000 ContainerStopped
      = (False, ''container's desired status is stopped'')"
proof -
  have h: "Enabled (restartPolicy (NewRestartTracker (test_policy True)))"
    by (simp add: NewRestartTracker_def test_policy_def)
  from h ShouldRestart_stopped [OF h] show ?thesis by simp
qed

text \<open>
  C4: for an enabled policy and a desired status other than stopped, a nil exit code
  makes \<^verbatim>\<open>ShouldRestart\<close> return \<^verbatim>\<open>(false, "exit code is nil")\<close>: an ordinary
  result of the total function, not a failure.
\<close>

theorem ShouldRestart_nil_exit_code:
  assumes "Enabled (restartPolicy rt)" and "desiredStatus \<noteq> ContainerStopped"
  shows "ShouldRestart rt m now None startedAt desiredStatus = (False, ''exit code is nil'')"
  using assms by (simp add: ShouldRestart_def)

theorem ShouldRestart_nil_exit_code_witness:
  "Enabled (restartPolicy (NewRestartTracker (test_policy True)))
   \<and> ContainerRunning \<noteq> ContainerStopped
   \<and> ShouldRestart (NewRestartTracker (test_policy True)) test_memory 0 None
        120000000000 ContainerRunning
      = (False, ''exit code is nil'')"
proof -
  have h1: "Enabled (restartPolicy (NewRestartTracker (test_policy True)))"
    by (simp add: NewRestartTracker_def test_policy_def)
  have h2: "ContainerRunning \<noteq> ContainerStopped"
    by simp
  from h1 h2 ShouldRestart_nil_exit_code [OF h1 h2] show ?thesis by simp
qed

text \<open>
  C5: for an enabled policy, a desired status other than stopped and an exit code \<open>c\<close>
  that occurs among the ignored exit codes, at whatever position, \<^verbatim>\<open>ShouldRestart\<close>
  returns \<^verbatim>\<open>false\<close> with the reason \<^verbatim>\<open>"exit code c should be ignored"\<close>, where
  \<open>c\<close> is written in decimal.
\<close>

theorem ShouldRestart_ignored_exit_code:
  assumes "Enabled (restartPolicy rt)" and "desiredStatus \<noteq> ContainerStopped"
    and "c \<in> set (elements m (IgnoredExitCodes (restartPolicy rt)))"
  shows "ShouldRestart rt m now (Some c) startedAt desiredStatus
           = (False, ''exit code '' @ format_d c @ '' should be ignored'')"
  using assms by (simp add: ShouldRestart_def ignored_loop_elements)

theorem ShouldRestart_ignored_exit_code_witness:
  "Enabled (restartPolicy (NewRestartTracker (test_policy True)))
   \<and> ContainerRunning \<noteq> ContainerStopped
   \<and> 0 \<in> set (elements test_memory (IgnoredExitCodes (restartPolicy (NewRestartTracker (test_policy True)))))
   \<and> ShouldRestart (NewRestartTracker (test_policy True)) test_memory 0 (Some 0)
        120000000000 ContainerRunning
      = (False, ''exit code 0 should be ignored'')
   \<and> elements (test_memory(1 := 137)) \<lparr>slice_array = 0, slice_len = 2, slice_cap = 2\<rparr>
      = [0, 137]
   \<and> ShouldRestart
        (NewRestartTracker (test_policy True
           \<lparr>IgnoredExitCodes := \<lparr>slice_array = 0, slice_len = 2, slice_cap = 2\<rparr>\<rparr>))
        (test_memory(1 := 137)) 0 (Some 137) 0 (ContainerStatusOther 0)
      = (False, ''exit code 137 should be ignored'')"
proof -
  let ?rt = "NewRestartTracker (test_policy True
               \<lparr>IgnoredExitCodes := \<lparr>slice_array = 0, slice_len = 2, slice_cap = 2\<rparr>\<rparr>)"
  have g1: "Enabled (restartPolicy ?rt)"
    by (simp add: NewRestartTracker_def test_policy_def)
  have g2: "ContainerStatusOther 0 \<noteq> ContainerStopped"
    by simp
  have e: "elements (test_memory(1 := 137)) \<lparr>slice_array = 0, slice_len = 2, slice_cap = 2\<rparr>
             = [0, 137]"
    by (simp add: elements_def test_memory_def upt_rec)
  have g3: "137 \<in> set (elements (test_memory(1 := 137)) (IgnoredExitCodes (restartPolicy ?rt)))"
    by (simp add: NewRestartTracker_def elements_def test_memory_def upt_rec)
  note second = ShouldRestart_ignored_exit_code [OF g1 g2 g3, of 0 0]
  have h1: "Enabled (restartPolicy (NewRestartTracker (test_policy True)))"
    by (simp add: NewRestartTracker_def test_policy_def)
  have h2: "ContainerRunning \<noteq> ContainerStopped"
    by simp
  have h3: "0 \<in> set (elements test_memory
              (IgnoredExitCodes (restartPolicy (NewRestartTracker (test_policy True)))))"
    by (simp add: NewRestartTracker_def test_policy_def elements_def test_memory_def)
  from h1 h2 h3 e second ShouldRestart_ignored_exit_code [OF h1 h2 h3] show ?thesis
    by (simp add: format_d_0 format_d_137 NewRestartTracker_def)
qed

text \<open>
  C1: for an enabled policy, a desired status other than stopped and an exit code that
  is present and not among the ignored ones, the last check compares
  \<^verbatim>\<open>time.Since(startedAt)\<close> with \<^verbatim>\<open>AttemptResetPeriod\<close>. If \<open>now - startedAt\<close> is
  greater than or equal to the period, also exactly equal, the result is
  \<^verbatim>\<open>(true, "")\<close>. If \<open>now - startedAt\<close> is strictly less than the period and the
  period is not the minimum duration, the result is
  \<^verbatim>\<open>(false, "attempt reset period has not elapsed")\<close>. With the minimum duration as
  period the result is always \<^verbatim>\<open>(true, "")\<close>, since \<^verbatim>\<open>time.Since\<close> never goes
  below it.
\<close>

theorem ShouldRestart_reset_period:
  assumes "Enabled (restartPolicy rt)" and "desiredStatus \<noteq> ContainerStopped"
    and "c \<notin> set (elements m (IgnoredExitCodes (restartPolicy rt)))"
  shows "(now - startedAt < sint (AttemptResetPeriod (restartPolicy rt))
            \<and> AttemptResetPeriod (restartPolicy rt) \<noteq> minDuration
            \<longrightarrow> ShouldRestart rt m now (Some c) startedAt desiredStatus
                  = (False, ''attempt reset period has not elapsed''))
       \<and> (sint (AttemptResetPeriod (restartPolicy rt)) \<le> now - startedAt
            \<longrightarrow> ShouldRestart rt m now (Some c) startedAt desiredStatus = (True, ''''))
       \<and> (AttemptResetPeriod (restartPolicy rt) = minDuration
            \<longrightarrow> ShouldRestart rt m now (Some c) startedAt desiredStatus = (True, ''''))
       \<and> ShouldRestart rt m now (Some c) startedAt desiredStatus
           = (if sint (Since now startedAt) < sint (AttemptResetPeriod (restartPolicy rt))
              then (False, ''attempt reset period has not elapsed'')
              else (True, ''''))"
proof -
  let ?p = "AttemptResetPeriod (restartPolicy rt)"
  have code: "ShouldRestart rt m now (Some c) startedAt desiredStatus
           = (if sint (Since now startedAt) < sint ?p
              then (False, ''attempt reset period has not elapsed'')
              else (True, ''''))"
    using assms by (simp add: ShouldRestart_def ignored_loop_elements)
  have blocked: "ShouldRestart rt m now (Some c) startedAt desiredStatus
                  = (False, ''attempt reset period has not elapsed'')"
    if "now - startedAt < sint ?p" and "?p \<noteq> minDuration"
    using that by (simp add: code Since_less_iff)
  have allowed: "ShouldRestart rt m now (Some c) startedAt desiredStatus = (True, '''')"
    if "sint ?p \<le> now - startedAt"
    using Since_ge [OF that] by (simp add: code)
  have least: "ShouldRestart rt m now (Some c) startedAt desiredStatus = (True, '''')"
    if "?p = minDuration"
    using Since_not_less_minDuration [of now startedAt] by (simp add: code that)
  from code blocked allowed least show ?thesis
    by blast
qed

theorem ShouldRestart_reset_period_witness:
  "Enabled (restartPolicy (NewRestartTracker (test_policy True)))
   \<and> ContainerRunning \<noteq> ContainerStopped
   \<and> 1 \<notin> set (elements test_memory (IgnoredExitCodes (restartPolicy (NewRestartTracker (test_policy True)))))
   \<and> AttemptResetPeriod (restartPolicy (NewRestartTracker (test_policy True))) \<noteq> minDuration
   \<and> 59999999999 - 0 < sint (AttemptResetPeriod (restartPolicy (NewRestartTracker (test_policy True))))
   \<and> ShouldRestart (NewRestartTracker (test_policy True)) test_memory 59999999999 (Some 1)
        0 ContainerRunning
      = (False, ''attempt reset period has not elapsed'')
   \<and> sint (AttemptResetPeriod (restartPolicy (NewRestartTracker (test_policy True)))) = 60000000000 - 0
   \<and> ShouldRestart (NewRestartTracker (test_policy True)) test_memory 60000000000 (Some 1)
        0 ContainerRunning
      = (True, '''')"
proof -
  have h1: "Enabled (restartPolicy (NewRestartTracker (test_policy True)))"
    by (simp add: NewRestartTracker_def test_policy_def)
  have h2: "ContainerRunning \<noteq> ContainerStopped"
    by simp
  have h3: "1 \<notin> set (elements test_memory
              (IgnoredExitCodes (restartPolicy (NewRestartTracker (test_policy True)))))"
    by (simp add: NewRestartTracker_def test_policy_def elements_def test_memory_def)
  have p: "AttemptResetPeriod (restartPolicy (NewRestartTracker (test_policy True)))
             = 60000000000"
    by (simp add: NewRestartTracker_def test_policy_def)
  from h1 h2 h3
    ShouldRestart_reset_period [OF h1 h2 h3, of 59999999999 0]
    ShouldRestart_reset_period [OF h1 h2 h3, of 60000000000 0]
  show ?thesis
    by (simp add: p minute_not_minDuration)
qed

text \<open>
  With the minimum duration as period and a start more than \<open>2 ^ 63\<close> nanoseconds
  after the clock reading, \<open>now - startedAt\<close> is below the period, yet the result is
  \<^verbatim>\<open>(true, "")\<close>: \<^verbatim>\<open>time.Since\<close> has stopped at the minimum duration.
\<close>

theorem ShouldRestart_reset_period_counterexample:
  "Enabled (restartPolicy (NewRestartTracker (test_policy True\<lparr>AttemptResetPeriod := minDuration\<rparr>)))
   \<and> ContainerRunning \<noteq> ContainerStopped
   \<and> 1 \<notin> set (elements test_memory (IgnoredExitCodes (restartPolicy
              (NewRestartTracker (test_policy True\<lparr>AttemptResetPeriod := minDuration\<rparr>)))))
   \<and> 0 - 9223372036854775809
        < sint (AttemptResetPeriod (restartPolicy
              (NewRestartTracker (test_policy True\<lparr>AttemptResetPeriod := minDuration\<rparr>))))
   \<and> ShouldRestart (NewRestartTracker (test_policy True\<lparr>AttemptResetPeriod := minDuration\<rparr>))
        test_memory 0 (Some 1) 9223372036854775809 ContainerRunning
      = (True, '''')"
  by (simp add: ShouldRestart_def NewRestartTracker_def test_policy_def test_memory_def
      elements_def Since_def Sub_def sint_minDuration)

text \<open>
  C9: \<^verbatim>\<open>ShouldRestart\<close> returns \<^verbatim>\<open>true\<close> exactly when the reason it returns is the
  empty string. A \<^verbatim>\<open>false\<close> result carries one of the five reasons of the function:
  the four constant ones or, for an exit code \<open>c\<close> that is present, the formatted
  \<^verbatim>\<open>"exit code c should be ignored"\<close>.
\<close>

theorem ShouldRestart_reason:
  "(fst (ShouldRestart rt m now exitCode startedAt desiredStatus)
      \<longleftrightarrow> snd (ShouldRestart rt m now exitCode startedAt desiredStatus) = '''')
   \<and> (\<not> fst (ShouldRestart rt m now exitCode startedAt desiredStatus) \<longrightarrow>
        snd (ShouldRestart rt m now exitCode startedAt desiredStatus)
          \<in> {''restart policy is not enabled'',
              ''container's desired status is stopped'',
              ''exit code is nil'',
              ''attempt reset period has not elapsed''}
        \<or> (\<exists>c. exitCode = Some c
              \<and> snd (ShouldRestart rt m now exitCode startedAt desiredStatus)
                  = ''exit code '' @ format_d c @ '' should be ignored''))"
  by (cases exitCode) (simp_all add: ShouldRestart_def ignored_loop_elements)

theorem ShouldRestart_reason_witness:
  "fst (ShouldRestart (NewRestartTracker (test_policy True)) test_memory 120000000000 (Some 1)
         0 ContainerRunning)
   \<and> snd (ShouldRestart (NewRestartTracker (test_policy True)) test_memory 120000000000 (Some 1)
         0 ContainerRunning) = ''''
   \<and> \<not> fst (ShouldRestart (NewRestartTracker (test_policy True)) test_memory 0 (Some 1)
         0 ContainerRunning)
   \<and> snd (ShouldRestart (NewRestartTracker (test_policy True)) test_memory 0 (Some 1)
         0 ContainerRunning) = ''attempt reset period has not elapsed''"
  using
    ShouldRestart_reason [of "NewRestartTracker (test_policy True)" test_memory 120000000000
      "Some 1" 0 ContainerRunning]
    ShouldRestart_reason [of "NewRestartTracker (test_policy True)" test_memory 0
      "Some 1" 0 ContainerRunning]
  by (simp add: ShouldRestart_def NewRestartTracker_def test_policy_def test_memory_def
      Since_def Sub_def)

text \<open>
  C10: the decision does not read the restart count. Two trackers with the same policy,
  whatever their counts, give the same result on the same arguments, memory and clock:
  no number of recorded restarts stops further ones.
\<close>

theorem ShouldRestart_ignores_count:
  assumes "restartPolicy rt = restartPolicy rt'"
  shows "ShouldRestart rt m now exitCode startedAt desiredStatus
           = ShouldRestart rt' m now exitCode startedAt desiredStatus"
  by (simp only: ShouldRestart_def assms)

theorem ShouldRestart_ignores_count_witness:
  "restartPolicy (NewRestartTracker (test_policy True))
     = restartPolicy ((RecordRestart ^^ 3) (NewRestartTracker (test_policy True)))
   \<and> ShouldRestart (NewRestartTracker (test_policy True)) test_memory 120000000000 (Some 1)
         0 ContainerRunning
       = ShouldRestart ((RecordRestart ^^ 3) (NewRestartTracker (test_policy True))) test_memory
           120000000000 (Some 1) 0 ContainerRunning"
proof -
  have h: "restartPolicy (NewRestartTracker (test_policy True))
     = restartPolicy ((RecordRestart ^^ 3) (NewRestartTracker (test_policy True)))"
    by (simp only: RecordRestart_funpow_policy)
  from h ShouldRestart_ignores_count [OF h] show ?thesis by simp
qed

section \<open>The restart count\<close>

text \<open>
  C6: a fresh tracker has count 0 and \<^verbatim>\<open>RecordRestart\<close> adds exactly one to the count
  in the arithmetic of \<^verbatim>\<open>int\<close>. After \<open>n\<close> calls on a fresh tracker the count is
  \<open>n\<close> reduced to 64 bits, so \<^verbatim>\<open>GetRestartCount\<close> returns \<open>n\<close> for every
  \<open>n\<close> below \<open>2 ^ 63\<close>.
\<close>

theorem RecordRestart_counts:
  "GetRestartCount (NewRestartTracker p) = 0
   \<and> GetRestartCount (RecordRestart rt) = GetRestartCount rt + 1
   \<and> GetRestartCount ((RecordRestart ^^ n) (NewRestartTracker p)) = of_nat n
   \<and> (n < 2 ^ 63 \<longrightarrow>
        sint (GetRestartCount ((RecordRestart ^^ n) (NewRestartTracker p))) = int n)"
  by (simp add: GetRestartCount_def RecordRestart_funpow_count sint_of_nat_small
      NewRestartTracker_def RecordRestart_def)

theorem RecordRestart_counts_witness:
  "(999::nat) < 2 ^ 63
   \<and> sint (GetRestartCount ((RecordRestart ^^ 999) (NewRestartTracker (test_policy False)))) = 999
   \<and> GetRestartCount (RecordRestart (NewRestartTracker (test_policy False))) = 1"
  using RecordRestart_counts [of "test_policy False" "NewRestartTracker (test_policy False)" 999]
  by simp

text \<open>
  After \<open>2 ^ 63\<close> calls the count has wrapped around: \<^verbatim>\<open>GetRestartCount\<close> does not
  return \<open>2 ^ 63\<close>.
\<close>

theorem RecordRestart_wraps_counterexample:
  "sint (GetRestartCount ((RecordRestart ^^ (2 ^ 63)) (NewRestartTracker (test_policy False))))
     \<noteq> 2 ^ 63"
  by (simp add: GetRestartCount_def RecordRestart_funpow_count NewRestartTracker_def)

text \<open>
  C7: a call of \<^verbatim>\<open>ShouldRestart\<close> or \<^verbatim>\<open>GetRestartCount\<close> leaves the tracker as it
  was. Over any sequence of calls the policy stays and the count grows by the number of
  \<^verbatim>\<open>RecordRestart\<close> calls, in the arithmetic of \<^verbatim>\<open>int\<close>: a \<^verbatim>\<open>RecordRestart\<close> on a
  count below \<open>2 ^ 63 - 1\<close> raises it by one, and from construction on the count never
  decreases while fewer than \<open>2 ^ 63\<close> restarts have been recorded.
\<close>

theorem tracker_state:
  "(c \<noteq> Call_RecordRestart \<longrightarrow> snd (exec c rt) = rt)
   \<and> restartPolicy (run cs rt) = restartPolicy rt
   \<and> RestartCount (run cs rt) = RestartCount rt + of_nat (recorded cs)
   \<and> (sint (RestartCount rt) < 2 ^ 63 - 1 \<longrightarrow>
        sint (RestartCount (RecordRestart rt)) = sint (RestartCount rt) + 1)
   \<and> (recorded (cs @ ds) < 2 ^ 63 \<longrightarrow>
        sint (RestartCount (run cs (NewRestartTracker p)))
          \<le> sint (RestartCount (run (cs @ ds) (NewRestartTracker p))))"
proof -
  have mono: "sint (RestartCount (run cs (NewRestartTracker p)))
          \<le> sint (RestartCount (run (cs @ ds) (NewRestartTracker p)))"
    if "recorded (cs @ ds) < 2 ^ 63"
  proof -
    from that have "recorded cs < 2 ^ 63" and "recorded cs \<le> recorded (cs @ ds)"
      by (simp_all add: recorded_append)
    with that show ?thesis
      by (simp add: run_count NewRestartTracker_def sint_of_nat_small)
  qed
  have step: "sint (RestartCount (RecordRestart rt)) = sint (RestartCount rt) + 1"
    if "sint (RestartCount rt) < 2 ^ 63 - 1"
    using that by (simp add: RecordRestart_def sint_succ)
  have frame: "c \<noteq> Call_RecordRestart \<longrightarrow> snd (exec c rt) = rt"
    by (simp add: exec_frame)
  from frame mono step show ?thesis
    by (simp only: run_policy run_count) simp
qed

theorem tracker_state_witness:
  "Call_GetRestartCount \<noteq> Call_RecordRestart
   \<and> snd (exec Call_GetRestartCount (NewRestartTracker (test_policy True)))
       = NewRestartTracker (test_policy True)
   \<and> Call_ShouldRestart test_memory 120000000000 (Some 1) 0 ContainerRunning \<noteq> Call_RecordRestart
   \<and> snd (exec (Call_ShouldRestart test_memory 120000000000 (Some 1) 0 ContainerRunning)
         (NewRestartTracker (test_policy True)))
       = NewRestartTracker (test_policy True)
   \<and> sint (RestartCount (NewRestartTracker (test_policy True))) < 2 ^ 63 - 1
   \<and> sint (RestartCount (RecordRestart (NewRestartTracker (test_policy True)))) = 1
   \<and> recorded ([Call_RecordRestart, Call_GetRestartCount] @ [Call_RecordRestart]) < 2 ^ 63
   \<and> sint (RestartCount (run [Call_RecordRestart, Call_GetRestartCount]
         (NewRestartTracker (test_policy True))))
       \<le> sint (RestartCount (run ([Call_RecordRestart, Call_GetRestartCount] @ [Call_RecordRestart])
         (NewRestartTracker (test_policy True))))"
proof -
  have h1: "Call_GetRestartCount \<noteq> Call_RecordRestart"
    by simp
  have h2: "Call_ShouldRestart test_memory 120000000000 (Some 1) 0 ContainerRunning
              \<noteq> Call_RecordRestart"
    by simp
  have h3: "sint (RestartCount (NewRestartTracker (test_policy True))) < 2 ^ 63 - 1"
    by (simp add: NewRestartTracker_def)
  have h4: "recorded ([Call_RecordRestart, Call_GetRestartCount] @ [Call_RecordRestart]) < 2 ^ 63"
    by simp
  from h1 h2 h3 h4
    tracker_state [of Call_GetRestartCount "NewRestartTracker (test_policy True)"
      "[Call_RecordRestart, Call_GetRestartCount]" "[Call_RecordRestart]" "test_policy True"]
    tracker_state [of "Call_ShouldRestart test_memory 120000000000 (Some 1) 0 ContainerRunning"
      "NewRestartTracker (test_policy True)"
      "[Call_RecordRestart, Call_GetRestartCount]" "[Call_RecordRestart]" "test_policy True"]
  show ?thesis
    by (simp add: NewRestartTracker_def)
qed

text \<open>
  On the tracker that has recorded \<open>2 ^ 63 - 1\<close> restarts since its construction, one
  more \<^verbatim>\<open>RecordRestart\<close> makes the count smaller.
\<close>

theorem RecordRestart_decreases_counterexample:
  "sint (RestartCount (snd (exec Call_RecordRestart
          ((RecordRestart ^^ (2 ^ 63 - 1)) (NewRestartTracker (test_policy True))))))
     < sint (RestartCount ((RecordRestart ^^ (2 ^ 63 - 1)) (NewRestartTracker (test_policy True))))"
  by (simp add: RecordRestart_funpow_count NewRestartTracker_def RecordRestart_def)

section \<open>Construction\<close>

text \<open>
  C8: \<^verbatim>\<open>NewRestartTracker\<close> sets the count to zero and stores the policy struct it
  received by value, slice header included. A later statement on the caller's policy
  variable (whose value is then \<open>q\<close>) that writes no cell of the stored slice, which is
  every assignment to a field and every element write outside that slice, leaves the
  stored policy, the elements of its ignored exit codes and every result of
  \<^verbatim>\<open>ShouldRestart\<close> as they were.
\<close>

theorem NewRestartTracker_copies_header:
  assumes "mutate \<mu> q m = Some (q', m')"
    and "written \<mu> q \<inter> cells (IgnoredExitCodes p) = {}"
  shows "RestartCount (NewRestartTracker p) = 0
       \<and> restartPolicy (NewRestartTracker p) = p
       \<and> elements m' (IgnoredExitCodes (restartPolicy (NewRestartTracker p)))
           = elements m (IgnoredExitCodes p)
       \<and> ShouldRestart (NewRestartTracker p) m' now exitCode startedAt desiredStatus
           = ShouldRestart (NewRestartTracker p) m now exitCode startedAt desiredStatus"
proof -
  have pol: "restartPolicy (NewRestartTracker p) = p"
    by (simp add: NewRestartTracker_def)
  have same: "\<forall>a \<in> cells (IgnoredExitCodes p). m' a = m a"
    using assms mutate_frame by blast
  have "ShouldRestart (NewRestartTracker p) m' now exitCode startedAt desiredStatus
           = ShouldRestart (NewRestartTracker p) m now exitCode startedAt desiredStatus"
    using same by (intro ShouldRestart_mem_cong) (simp only: pol)
  with pol same show ?thesis
    by (simp add: elements_cong NewRestartTracker_def)
qed

theorem NewRestartTracker_copies_header_witness:
  "mutate (Set_Enabled False) (test_policy True) test_memory
     = Some (test_policy False, test_memory)
   \<and> written (Set_Enabled False) (test_policy True)
        \<inter> cells (IgnoredExitCodes (test_policy True)) = {}
   \<and> restartPolicy (NewRestartTracker (test_policy True)) = test_policy True
   \<and> ShouldRestart (NewRestartTracker (test_policy True)) test_memory
         120000000000 (Some 1) 0 ContainerRunning = (True, '''')
   \<and> mutate (Set_IgnoredExitCode 1 1)
        (test_policy True\<lparr>IgnoredExitCodes := \<lparr>slice_array = 5, slice_len = 2, slice_cap = 2\<rparr>\<rparr>)
        test_memory
      = Some (test_policy True\<lparr>IgnoredExitCodes := \<lparr>slice_array = 5, slice_len = 2, slice_cap = 2\<rparr>\<rparr>,
              test_memory(6 := 1))
   \<and> written (Set_IgnoredExitCode 1 1)
        (test_policy True\<lparr>IgnoredExitCodes := \<lparr>slice_array = 5, slice_len = 2, slice_cap = 2\<rparr>\<rparr>)
        \<inter> cells (IgnoredExitCodes (test_policy True)) = {}
   \<and> ShouldRestart (NewRestartTracker (test_policy True)) (test_memory(6 := 1))
         120000000000 (Some 1) 0 ContainerRunning = (True, '''')"
proof -
  let ?q = "test_policy True\<lparr>IgnoredExitCodes := \<lparr>slice_array = 5, slice_len = 2, slice_cap = 2\<rparr>\<rparr>"
  have h1: "mutate (Set_Enabled False) (test_policy True) test_memory
     = Some (test_policy False, test_memory)"
    by (simp add: test_policy_def)
  have h2: "written (Set_Enabled False) (test_policy True)
        \<inter> cells (IgnoredExitCodes (test_policy True)) = {}"
    by simp
  have g1: "mutate (Set_IgnoredExitCode 1 1) ?q test_memory = Some (?q, test_memory(6 := 1))"
    by (simp add: test_policy_def)
  have g2: "written (Set_IgnoredExitCode 1 1) ?q \<inter> cells (IgnoredExitCodes (test_policy True)) = {}"
    by (simp add: test_policy_def cells_def)
  have v: "ShouldRestart (NewRestartTracker (test_policy True)) test_memory
         120000000000 (Some 1) 0 ContainerRunning = (True, '''')"
    by (simp add: ShouldRestart_def NewRestartTracker_def test_policy_def test_memory_def
      Since_def Sub_def)
  from h1 h2 g1 g2 v
    NewRestartTracker_copies_header [OF h1 h2, of 120000000000 "Some 1" 0 ContainerRunning]
    NewRestartTracker_copies_header [OF g1 g2, of 120000000000 "Some 1" 0 ContainerRunning]
  show ?thesis by simp
qed

text \<open>
  The backing array is shared. After \<^verbatim>\<open>NewRestartTracker(p)\<close> with the policy of the
  test, the caller's \<^verbatim>\<open>p.IgnoredExitCodes[0] = 1\<close> changes the ignored exit codes the
  tracker reads from \<open>[0]\<close> to \<open>[1]\<close>, and the decision for exit code 1 from a restart
  to none.
\<close>

theorem NewRestartTracker_shares_array_counterexample:
  "mutate (Set_IgnoredExitCode 0 1) (test_policy True) test_memory
     = Some (test_policy True, test_memory(0 := 1))
   \<and> elements test_memory
        (IgnoredExitCodes (restartPolicy (NewRestartTracker (test_policy True)))) = [0]
   \<and> elements (test_memory(0 := 1))
        (IgnoredExitCodes (restartPolicy (NewRestartTracker (test_policy True)))) = [1]
   \<and> ShouldRestart (NewRestartTracker (test_policy True)) test_memory
         120000000000 (Some 1) 0 ContainerRunning = (True, '''')
   \<and> ShouldRestart (NewRestartTracker (test_policy True)) (test_memory(0 := 1))
         120000000000 (Some 1) 0 ContainerRunning = (False, ''exit code 1 should be ignored'')"
  by (simp add: ShouldRestart_def NewRestartTracker_def test_policy_def test_memory_def
      Since_def Sub_def format_d_1 elements_def)

end
